theory Spec2Isabelle
  imports Main
begin

section \<open>The Gomoku launcher (\<^verbatim>\<open>src/start.py\<close>)\<close>

text \<open>
  The program under verification:
  \<^verbatim>\<open>
  import sys
  from src.ui.ui import UI
  from src.gui.gui import GomokuGUI

  if __name__ == "__main__":
      # Check if user passed an argument for GUI or UI
      if len(sys.argv) > 1 and sys.argv[1] == "--ui":
          gomoku_game = UI(size=10)
      else:
          gomoku_game = GomokuGUI(size=10)

      gomoku_game.run()
  \<close>
  The two classes \<open>UI\<close> (the text front-end, the specification's \<open>TextMode\<close>) and
  \<open>GomokuGUI\<close> (the graphical front-end, \<open>GraphicalMode\<close>) are defined elsewhere
  in the repository. The launcher only calls their constructor and their \<open>run\<close> method, so
  they enter the model as a parameter that answers these two calls. Loading their modules,
  which the two \<open>from ... import\<close> statements do before the guard is reached, is a
  second parameter.
\<close>

subsection \<open>Data\<close>

text \<open>The two classes the import statements bind.\<close>

datatype frontend_class = UI | GomokuGUI

text \<open>
  What a call can do: return a value, raise, or never return (\<open>run\<close> blocks until the
  session ends). The second type parameter is the type of the exceptions.
\<close>

datatype ('a, 'x) outcome = Returned 'a | Raised 'x | Diverged

text \<open>
  The exceptions that can leave the launcher: an \<open>IndexError\<close> of its own subscript
  \<open>sys.argv[1]\<close>, or whatever a front-end raised (named by a string), passed on as it is
  since the launcher has no \<open>try\<close>.
\<close>

datatype py_error = IndexError | Propagated string

text \<open>
  The classes \<open>UI\<close> and \<open>GomokuGUI\<close> live in \<open>src/ui/ui.py\<close> and
  \<open>src/gui/gui.py\<close>, outside the sources at hand, so their behaviour is a parameter:
  \<open>init env c n\<close> is the outcome of the constructor call \<open>c(size=n)\<close> and
  \<open>run env g\<close> the outcome of \<open>g.run()\<close>. Either may return, raise or block for
  ever; nothing else is assumed about them.
\<close>

record 'i collaborators =
  init :: "frontend_class \<Rightarrow> int \<Rightarrow> ('i, string) outcome"
  run :: "'i \<Rightarrow> (unit, string) outcome"

text \<open>
  What a process run is started with: \<open>sys.argv\<close> (the program name, then the
  arguments), the environment variables and the files found on disk. The launcher is
  handed all of it. An argument is a \<open>string\<close>; the launcher only compares it with
  an ASCII literal, and a Python string equals that literal exactly when its encoding
  does.
\<close>

record process =
  argv :: "string list"
  environ :: "string \<rightharpoonup> string"
  storage :: "string \<rightharpoonup> string"

text \<open>The calls the launcher makes on the front-ends, each with what came back.\<close>

datatype 'i event =
    Call_init frontend_class int "('i, string) outcome"
  | Call_run 'i "(unit, string) outcome"

type_synonym ('i, 'a) action = "'i event list \<times> ('a, py_error) outcome"

subsection \<open>Operations\<close>

text \<open>\<open>sys.argv[i]\<close> for an index \<open>i \<ge> 0\<close>: Python raises out of range.\<close>

definition argv_item :: "string list \<Rightarrow> nat \<Rightarrow> py_error + string" where
  "argv_item sys_argv i =
     (if i < length sys_argv then Inr (sys_argv ! i) else Inl IndexError)"

text \<open>
  The condition \<open>len(sys.argv) > 1 and sys.argv[1] == "--ui"\<close>. Python's \<open>and\<close>
  evaluates its right operand only when the left one is true.
\<close>

definition ui_flag_given :: "string list \<Rightarrow> py_error + bool" where
  "ui_flag_given sys_argv =
     (if 1 < length sys_argv
      then (case argv_item sys_argv 1 of
              Inl e \<Rightarrow> Inl e
            | Inr a \<Rightarrow> Inr (a = ''--ui''))
      else Inr False)"

text \<open>An exception of a front-end reaches the launcher unchanged.\<close>

fun propagate :: "('a, string) outcome \<Rightarrow> ('a, py_error) outcome" where
  "propagate (Returned a) = Returned a"
| "propagate (Raised x) = Raised (Propagated x)"
| "propagate Diverged = Diverged"

text \<open>Sequencing of statements: the second runs only when the first has returned.\<close>

fun and_then :: "('i, 'a) action \<Rightarrow> ('a \<Rightarrow> ('i, 'b) action) \<Rightarrow> ('i, 'b) action" where
  "and_then (l, Returned a) f = (case f a of (l', r) \<Rightarrow> (l @ l', r))"
| "and_then (l, Raised x) f = (l, Raised x)"
| "and_then (l, Diverged) f = (l, Diverged)"

text \<open>The constructor call \<open>c(size=n)\<close> and the method call \<open>g.run()\<close>.\<close>

definition call_init :: "'i collaborators \<Rightarrow> frontend_class \<Rightarrow> int \<Rightarrow> ('i, 'i) action" where
  "call_init env c n = ([Call_init c n (init env c n)], propagate (init env c n))"

definition call_run :: "'i collaborators \<Rightarrow> 'i \<Rightarrow> ('i, unit) action" where
  "call_run env g = ([Call_run g (run env g)], propagate (run env g))"

text \<open>The body of the \<open>if __name__ == "__main__":\<close> block.\<close>

definition main_block :: "'i collaborators \<Rightarrow> process \<Rightarrow> ('i, unit) action" where
  "main_block env p =
     (case ui_flag_given (argv p) of
        Inl e \<Rightarrow> ([], Raised e)
      | Inr flag \<Rightarrow>
          and_then
            (if flag then call_init env UI 10 else call_init env GomokuGUI 10)
            (\<lambda>gomoku_game. call_run env gomoku_game))"

text \<open>
  The \<open>if __name__ == "__main__":\<close> statement, the last of the module, reached once
  the imports above it have bound the two classes. \<open>name\<close> is Python's
  \<open>__name__\<close>: the string \<open>__main__\<close> when the file is the program, the
  module's own name when it is imported.
\<close>

definition start :: "'i collaborators \<Rightarrow> string \<Rightarrow> process \<Rightarrow> ('i, unit) action" where
  "start env name p =
     (if name = ''__main__'' then main_block env p else ([], Returned ()))"

subsection \<open>The whole module\<close>

text \<open>
  What executing the file does, in order: an import statement with what came back, or a
  call on a front-end made inside the guarded block.
\<close>

datatype 'i module_event =
    Import_from string string "(unit, string) outcome"
  | Front_end "'i event"

type_synonym 'i module_run = "'i module_event list \<times> (unit, py_error) outcome"

text \<open>
  The statement \<open>from m import n\<close>. It executes the top-level code of module \<open>m\<close>
  (unless the interpreter has loaded it already) and looks \<open>n\<close> up in it; either step
  can raise. The modules are not among the sources at hand, so \<open>load m n\<close>, the outcome
  of the statement, is a parameter. The launcher does not catch what it raises.
\<close>

definition import_from ::
  "(string \<Rightarrow> string \<Rightarrow> (unit, string) outcome) \<Rightarrow> string \<Rightarrow> string \<Rightarrow> 'i module_run" where
  "import_from load m n = ([Import_from m n (load m n)], propagate (load m n))"

text \<open>One top-level statement after another: the next runs only when this one returned.\<close>

fun next_statement :: "'i module_run \<Rightarrow> 'i module_run \<Rightarrow> 'i module_run" where
  "next_statement (l, Returned u) s = (case s of (l', r) \<Rightarrow> (l @ l', r))"
| "next_statement (l, Raised x) s = (l, Raised x)"
| "next_statement (l, Diverged) s = (l, Diverged)"

text \<open>
  The file from its first line, executed under the module name \<open>name\<close>. Line 1,
  \<open>import sys\<close>, binds a module that the interpreter itself has loaded before any
  file runs: it executes no code and cannot fail, and it leaves no event. Lines 2 and 3
  are outside the guard and run on every execution, as a program and as an import alike.
\<close>

definition start_py ::
  "(string \<Rightarrow> string \<Rightarrow> (unit, string) outcome) \<Rightarrow> 'i collaborators \<Rightarrow> string \<Rightarrow> process
     \<Rightarrow> 'i module_run" where
  "start_py load env name p =
     next_statement (import_from load ''src.ui.ui'' ''UI'')
       (next_statement (import_from load ''src.gui.gui'' ''GomokuGUI'')
          (case start env name p of (l, r) \<Rightarrow> (map Front_end l, r)))"

subsection \<open>Reading a log\<close>

text \<open>The calls on front-ends among the events of a module run.\<close>

fun front_end_calls :: "'i module_event list \<Rightarrow> 'i event list" where
  "front_end_calls [] = []"
| "front_end_calls (Import_from m n r # es) = front_end_calls es"
| "front_end_calls (Front_end e # es) = e # front_end_calls es"

text \<open>The import statements among them: module and name.\<close>

fun imports_run :: "'i module_event list \<Rightarrow> (string \<times> string) list" where
  "imports_run [] = []"
| "imports_run (Import_from m n r # es) = (m, n) # imports_run es"
| "imports_run (Front_end e # es) = imports_run es"

text \<open>The constructor calls of a log, in order: class and board size.\<close>

fun constructions :: "'i event list \<Rightarrow> (frontend_class \<times> int) list" where
  "constructions [] = []"
| "constructions (Call_init c n r # es) = (c, n) # constructions es"
| "constructions (Call_run g r # es) = constructions es"

text \<open>The instances that constructor calls returned.\<close>

fun instances :: "'i event list \<Rightarrow> 'i list" where
  "instances [] = []"
| "instances (Call_init c n (Returned g) # es) = g # instances es"
| "instances (e # es) = instances es"

text \<open>The instances \<open>run\<close> was invoked on.\<close>

fun run_calls :: "'i event list \<Rightarrow> 'i list" where
  "run_calls [] = []"
| "run_calls (Call_run g r # es) = g # run_calls es"
| "run_calls (e # es) = run_calls es"

subsection \<open>Sample runs\<close>

text \<open>
  Front-ends that behave: each constructor returns an instance (numbered here) and
  \<open>run\<close> returns when the session ends.
\<close>

definition sample_frontends :: "nat collaborators" where
  "sample_frontends =
     \<lparr>init = (\<lambda>c n. Returned (case c of UI \<Rightarrow> 1 | GomokuGUI \<Rightarrow> 2)),
      run = (\<lambda>g. Returned ())\<rparr>"

text \<open>Front-ends whose constructors raise.\<close>

definition failing_frontends :: "nat collaborators" where
  "failing_frontends =
     \<lparr>init = (\<lambda>c n. Raised ''RuntimeError''), run = (\<lambda>g. Returned ())\<rparr>"

text \<open>Both front-end modules are found and load; none is found.\<close>

definition modules_load :: "string \<Rightarrow> string \<Rightarrow> (unit, string) outcome" where
  "modules_load m n = Returned ()"

definition modules_missing :: "string \<Rightarrow> string \<Rightarrow> (unit, string) outcome" where
  "modules_missing m n = Raised ''ModuleNotFoundError''"

text \<open>The process \<open>python start.py args\<close> with nothing in its environment.\<close>

definition python_start :: "string list \<Rightarrow> process" where
  "python_start args =
     \<lparr>argv = ''start.py'' # args, environ = Map.empty, storage = Map.empty\<rparr>"

section \<open>Properties\<close>

subsection \<open>Shared facts\<close>

lemma ui_flag_given_total:
  "ui_flag_given sys_argv = Inr (1 < length sys_argv \<and> sys_argv ! 1 = ''--ui'')"
  by (simp add: ui_flag_given_def argv_item_def)

lemma second_item:
  "(1 < length xs \<and> xs ! 1 = a) = (case tl xs of [] \<Rightarrow> False | b # bs \<Rightarrow> b = a)"
proof (cases xs)
  case Nil
  then show ?thesis by simp
next
  case (Cons x ys)
  then show ?thesis by (cases ys) simp_all
qed

lemma main_block_run:
  "main_block env p =
     (let c = (if 1 < length (argv p) \<and> argv p ! 1 = ''--ui'' then UI else GomokuGUI)
      in case init env c 10 of
           Returned g \<Rightarrow>
             ([Call_init c 10 (Returned g), Call_run g (run env g)], propagate (run env g))
         | Raised x \<Rightarrow> ([Call_init c 10 (Raised x)], Raised (Propagated x))
         | Diverged \<Rightarrow> ([Call_init c 10 Diverged], Diverged))"
  by (simp add: main_block_def ui_flag_given_total call_init_def call_run_def Let_def
      split: outcome.split)

lemma constructions_main_block:
  "constructions (fst (main_block env p)) =
     [(if 1 < length (argv p) \<and> argv p ! 1 = ''--ui'' then UI else GomokuGUI, 10)]"
  by (simp add: main_block_run Let_def split: outcome.split)

lemma front_end_calls_map:
  "front_end_calls (map Front_end l) = l"
  by (induction l) simp_all

lemma start_py_after_imports:
  "load ''src.ui.ui'' ''UI'' = Returned () \<Longrightarrow>
   load ''src.gui.gui'' ''GomokuGUI'' = Returned () \<Longrightarrow>
   front_end_calls (fst (start_py load env name p)) = fst (start env name p)
   \<and> snd (start_py load env name p) = snd (start env name p)"
  by (cases "start env name p")
     (simp add: start_py_def import_from_def front_end_calls_map)

subsection \<open>Selection\<close>

text \<open>
  C1. Whenever the first argument after the program name is exactly \<open>--ui\<close>, whatever
  follows it, the launcher constructs the text front-end \<open>UI\<close> and not the graphical
  one: the only constructor call of the run is \<open>UI(size=10)\<close>.
\<close>

theorem ui_flag_selects_text_mode:
  "constructions (fst (start env ''__main__'' (p\<lparr>argv := prog # ''--ui'' # rest\<rparr>)))
     = [(UI, 10)]"
  by (simp add: start_def constructions_main_block)

text \<open>
  C2. When there is no argument after the program name, or the first one is any string
  other than \<open>--ui\<close>, the launcher constructs the graphical front-end: its only
  constructor call is \<open>GomokuGUI(size=10)\<close>. The witness runs the inputs \<open>[]\<close>
  and \<open>["somethingelse"]\<close>.
\<close>

theorem other_arguments_select_graphical_mode:
  "args = [] \<or> hd args \<noteq> ''--ui'' \<Longrightarrow>
   constructions (fst (start env ''__main__'' (p\<lparr>argv := prog # args\<rparr>)))
     = [(GomokuGUI, 10)]"
  by (cases args) (auto simp add: start_def constructions_main_block)

theorem other_arguments_select_graphical_mode_witness:
  "hd [''somethingelse''] \<noteq> ''--ui''
   \<and> constructions (fst (start sample_frontends ''__main__''
         (python_start []\<lparr>argv := ''start.py'' # []\<rparr>))) = [(GomokuGUI, 10)]
   \<and> constructions (fst (start sample_frontends ''__main__''
         (python_start []\<lparr>argv := ''start.py'' # [''somethingelse'']\<rparr>)))
       = [(GomokuGUI, 10)]"
  using other_arguments_select_graphical_mode
          [where args = "[]" and env = sample_frontends and p = "python_start []"
             and prog = "''start.py''"]
        other_arguments_select_graphical_mode
          [where args = "[''somethingelse'']" and env = sample_frontends
             and p = "python_start []" and prog = "''start.py''"]
  by simp

subsection \<open>Board size\<close>

text \<open>
  C3. For every argument list, and whichever front-end is chosen, the board size handed
  to the constructor is 10: the sizes of the constructor calls of a run are the list
  \<open>[10]\<close>.
\<close>

theorem board_size_is_ten:
  "map snd (constructions (fst (start env ''__main__'' p))) = [10]"
  by (simp add: start_def constructions_main_block)

subsection \<open>One front-end per run\<close>

text \<open>
  C4. For every argument list, a run makes exactly one constructor call, so the class
  not selected is never constructed and none is constructed twice. At most one instance
  comes into being, and it is the one this call returns: exactly one instance whenever
  the constructor returns.
\<close>

theorem exactly_one_front_end_constructed:
  "\<exists>c. constructions (fst (start env ''__main__'' p)) = [(c, 10)]
       \<and> length (instances (fst (start env ''__main__'' p))) \<le> 1
       \<and> (\<forall>g. init env c 10 = Returned g
              \<longrightarrow> instances (fst (start env ''__main__'' p)) = [g])"
proof -
  let ?c = "if 1 < length (argv p) \<and> argv p ! 1 = ''--ui'' then UI else GomokuGUI"
  have "constructions (fst (start env ''__main__'' p)) = [(?c, 10)]"
    by (simp add: start_def constructions_main_block)
  moreover have "length (instances (fst (start env ''__main__'' p))) \<le> 1"
    by (simp add: start_def main_block_run Let_def split: outcome.split)
  moreover have "\<forall>g. init env ?c 10 = Returned g
                   \<longrightarrow> instances (fst (start env ''__main__'' p)) = [g]"
    by (simp add: start_def main_block_run Let_def)
  ultimately show ?thesis by blast
qed

theorem exactly_one_front_end_constructed_witness:
  "init sample_frontends UI 10 = Returned 1
   \<and> constructions (fst (start sample_frontends ''__main__'' (python_start [''--ui''])))
       = [(UI, 10)]
   \<and> instances (fst (start sample_frontends ''__main__'' (python_start [''--ui''])))
       = [1]
   \<and> constructions (fst (start failing_frontends ''__main__'' (python_start [])))
       = [(GomokuGUI, 10)]
   \<and> instances (fst (start failing_frontends ''__main__'' (python_start []))) = []"
  using exactly_one_front_end_constructed
          [where env = sample_frontends and p = "python_start [''--ui'']"]
  by (simp add: sample_frontends_def failing_frontends_def python_start_def start_def
      main_block_run)

subsection \<open>No error path\<close>

text \<open>
  C5. The selection is total. For every \<open>sys.argv\<close>, also one with no argument, with an
  unknown first argument or with further arguments, the condition evaluates to a truth
  value and never raises: the subscript \<open>sys.argv[1]\<close> is only evaluated when the
  length test has passed (so with the program name alone the condition is false). Every
  run then constructs exactly one of the two classes, and no run ends in an
  \<open>IndexError\<close> of the launcher.
\<close>

theorem selection_is_total:
  "(ui_flag_given (argv p) = Inr True) \<noteq> (ui_flag_given (argv p) = Inr False)
   \<and> ui_flag_given [] = Inr False
   \<and> ui_flag_given [prog] = Inr False
   \<and> (constructions (fst (start env ''__main__'' p)) = [(UI, 10)])
       \<noteq> (constructions (fst (start env ''__main__'' p)) = [(GomokuGUI, 10)])
   \<and> snd (start env ''__main__'' p) \<noteq> Raised IndexError"
proof (intro conjI)
  show "(ui_flag_given (argv p) = Inr True) \<noteq> (ui_flag_given (argv p) = Inr False)"
    by (simp add: ui_flag_given_total)
  show "ui_flag_given [] = Inr False"
    by (simp add: ui_flag_given_def)
  show "ui_flag_given [prog] = Inr False"
    by (simp add: ui_flag_given_def)
  show "(constructions (fst (start env ''__main__'' p)) = [(UI, 10)])
          \<noteq> (constructions (fst (start env ''__main__'' p)) = [(GomokuGUI, 10)])"
    by (simp add: start_def constructions_main_block)
  show "snd (start env ''__main__'' p) \<noteq> Raised IndexError"
  proof (cases "init env (if 1 < length (argv p) \<and> argv p ! 1 = ''--ui''
                          then UI else GomokuGUI) 10")
    case (Returned g)
    then show ?thesis
      by (cases "run env g") (simp_all add: start_def main_block_run Let_def)
  next
    case (Raised x)
    then show ?thesis by (simp add: start_def main_block_run Let_def)
  next
    case Diverged
    then show ?thesis by (simp add: start_def main_block_run Let_def)
  qed
qed

subsection \<open>What the selection depends on\<close>

text \<open>
  C6. The selection is a function of the argument list alone: two runs whose arguments
  after the program name are equal make the same constructor call with the same board
  size, whatever their environment variables, their files, their program names and the
  behaviour of the front-ends.
\<close>

theorem selection_depends_on_arguments_only:
  "tl (argv p) = tl (argv p') \<Longrightarrow>
   constructions (fst (start env ''__main__'' p))
     = constructions (fst (start env' ''__main__'' p'))"
proof -
  assume same: "tl (argv p) = tl (argv p')"
  have "(1 < length (argv p) \<and> argv p ! 1 = ''--ui'')
          = (1 < length (argv p') \<and> argv p' ! 1 = ''--ui'')"
    by (simp only: second_item same)
  then have "constructions (fst (main_block env p))
               = constructions (fst (main_block env' p'))"
    by (simp only: constructions_main_block)
  then show ?thesis by (simp add: start_def)
qed

theorem selection_depends_on_arguments_only_witness:
  "tl (argv \<lparr>argv = [''start.py'', ''--ui''], environ = [''HOME'' \<mapsto> ''/root''],
             storage = Map.empty\<rparr>)
     = tl (argv \<lparr>argv = [''./start.py'', ''--ui''], environ = Map.empty,
                 storage = [''save.dat'' \<mapsto> ''x'']\<rparr>)
   \<and> constructions (fst (start sample_frontends ''__main__''
         \<lparr>argv = [''start.py'', ''--ui''], environ = [''HOME'' \<mapsto> ''/root''],
          storage = Map.empty\<rparr>))
     = constructions (fst (start failing_frontends ''__main__''
         \<lparr>argv = [''./start.py'', ''--ui''], environ = Map.empty,
          storage = [''save.dat'' \<mapsto> ''x'']\<rparr>))"
  using selection_depends_on_arguments_only
          [where p = "\<lparr>argv = [''start.py'', ''--ui''],
                        environ = [''HOME'' \<mapsto> ''/root''], storage = Map.empty\<rparr>"
             and p' = "\<lparr>argv = [''./start.py'', ''--ui''], environ = Map.empty,
                         storage = [''save.dat'' \<mapsto> ''x'']\<rparr>"
             and env = sample_frontends and env' = failing_frontends]
  by simp

text \<open>
  C7. Arguments after the first are ignored: two argument lists that are both empty, or
  both non-empty with the same first element, lead to the same constructor call and board
  size. The witness compares \<open>["--ui", "extra"]\<close> with \<open>["--ui"]\<close>: both construct
  \<open>UI(size=10)\<close>.
\<close>

theorem later_arguments_are_ignored:
  "(args = []) = (args' = []) \<Longrightarrow> args \<noteq> [] \<longrightarrow> hd args = hd args' \<Longrightarrow>
   constructions (fst (start env ''__main__'' (p\<lparr>argv := prog # args\<rparr>)))
     = constructions (fst (start env ''__main__'' (p\<lparr>argv := prog # args'\<rparr>)))"
  by (cases args; cases args') (simp_all add: start_def constructions_main_block)

theorem later_arguments_are_ignored_witness:
  "([''--ui'', ''extra''] = []) = ([''--ui''] = [])
   \<and> hd [''--ui'', ''extra''] = hd [''--ui'']
   \<and> constructions (fst (start sample_frontends ''__main__''
         (python_start []\<lparr>argv := ''start.py'' # [''--ui'', ''extra'']\<rparr>)))
     = constructions (fst (start sample_frontends ''__main__''
         (python_start []\<lparr>argv := ''start.py'' # [''--ui'']\<rparr>)))
   \<and> constructions (fst (start sample_frontends ''__main__''
         (python_start []\<lparr>argv := ''start.py'' # [''--ui'', ''extra'']\<rparr>)))
     = [(UI, 10)]"
  using later_arguments_are_ignored
          [where args = "[''--ui'', ''extra'']" and args' = "[''--ui'']"
             and env = sample_frontends and p = "python_start []"
             and prog = "''start.py''"]
  by (simp add: start_def constructions_main_block)

subsection \<open>Order of the calls\<close>

text \<open>
  C8. For every argument list the run is: one constructor call with board size 10, then,
  once it has returned an instance, one call of \<open>run\<close> on that very instance, and
  nothing after it; what \<open>run\<close> does is what the launcher ends with. The hand-over is
  under no condition of the launcher's own and happens once: \<open>run\<close> is called on the
  constructed instances and on nothing else, at most once, and never before the
  construction. (A constructor that raises or blocks ends the run there; the launcher
  adds nothing of its own.)
\<close>

theorem construct_then_run_once:
  "(\<exists>c. case init env c 10 of
           Returned g \<Rightarrow>
             start env ''__main__'' p
               = ([Call_init c 10 (Returned g), Call_run g (run env g)],
                  propagate (run env g))
         | Raised x \<Rightarrow>
             start env ''__main__'' p
               = ([Call_init c 10 (Raised x)], Raised (Propagated x))
         | Diverged \<Rightarrow>
             start env ''__main__'' p = ([Call_init c 10 Diverged], Diverged))
   \<and> run_calls (fst (start env ''__main__'' p)) = instances (fst (start env ''__main__'' p))
   \<and> length (run_calls (fst (start env ''__main__'' p))) \<le> 1"
proof (intro conjI)
  let ?c = "if 1 < length (argv p) \<and> argv p ! 1 = ''--ui'' then UI else GomokuGUI"
  have "case init env ?c 10 of
          Returned g \<Rightarrow>
            start env ''__main__'' p
              = ([Call_init ?c 10 (Returned g), Call_run g (run env g)],
                 propagate (run env g))
        | Raised x \<Rightarrow>
            start env ''__main__'' p
              = ([Call_init ?c 10 (Raised x)], Raised (Propagated x))
        | Diverged \<Rightarrow>
            start env ''__main__'' p = ([Call_init ?c 10 Diverged], Diverged)"
    by (cases "init env ?c 10") (simp_all add: start_def main_block_run Let_def)
  then show "\<exists>c. case init env c 10 of
          Returned g \<Rightarrow>
            start env ''__main__'' p
              = ([Call_init c 10 (Returned g), Call_run g (run env g)],
                 propagate (run env g))
        | Raised x \<Rightarrow>
            start env ''__main__'' p
              = ([Call_init c 10 (Raised x)], Raised (Propagated x))
        | Diverged \<Rightarrow>
            start env ''__main__'' p = ([Call_init c 10 Diverged], Diverged)"
    by (rule exI)
  show "run_calls (fst (start env ''__main__'' p))
          = instances (fst (start env ''__main__'' p))"
    by (simp add: start_def main_block_run Let_def split: outcome.split)
  show "length (run_calls (fst (start env ''__main__'' p))) \<le> 1"
    by (simp add: start_def main_block_run Let_def split: outcome.split)
qed

theorem construct_then_run_once_witness:
  "start sample_frontends ''__main__'' (python_start [])
     = ([Call_init GomokuGUI 10 (Returned 2), Call_run 2 (Returned ())], Returned ())
   \<and> start sample_frontends ''__main__'' (python_start [''--ui''])
     = ([Call_init UI 10 (Returned 1), Call_run 1 (Returned ())], Returned ())
   \<and> run_calls (fst (start sample_frontends ''__main__'' (python_start [''--ui'']))) = [1]"
  using construct_then_run_once [where env = sample_frontends and p = "python_start []"]
        construct_then_run_once
          [where env = sample_frontends and p = "python_start [''--ui'']"]
  by (simp add: sample_frontends_def python_start_def start_def main_block_run)

subsection \<open>The flag\<close>

text \<open>
  C9. The flag is matched by equality of strings with \<open>sys.argv[1]\<close> and nothing else:
  a run constructs \<open>UI\<close> exactly when that argument is the four characters \<open>--ui\<close>,
  and \<open>GomokuGUI\<close> exactly when it is not, whatever the later arguments are. The
  witness runs \<open>--UI\<close>, \<open>--ui\<close> followed by a space, \<open>-ui\<close>, \<open>--ui=x\<close> and the
  list \<open>["x", "--ui"]\<close>: all construct \<open>GomokuGUI\<close>.
\<close>

theorem flag_match_is_exact:
  "(constructions (fst (start env ''__main__'' (p\<lparr>argv := prog # a # rest\<rparr>)))
      = [(UI, 10)]) = (a = ''--ui'')
   \<and> (constructions (fst (start env ''__main__'' (p\<lparr>argv := prog # a # rest\<rparr>)))
      = [(GomokuGUI, 10)]) = (a \<noteq> ''--ui'')"
  by (simp add: start_def constructions_main_block)

theorem flag_match_is_exact_witness:
  "constructions (fst (start sample_frontends ''__main__''
       (python_start []\<lparr>argv := ''start.py'' # ''--UI'' # []\<rparr>))) = [(GomokuGUI, 10)]
   \<and> constructions (fst (start sample_frontends ''__main__''
       (python_start []\<lparr>argv := ''start.py'' # ''--ui '' # []\<rparr>))) = [(GomokuGUI, 10)]
   \<and> constructions (fst (start sample_frontends ''__main__''
       (python_start []\<lparr>argv := ''start.py'' # ''-ui'' # []\<rparr>))) = [(GomokuGUI, 10)]
   \<and> constructions (fst (start sample_frontends ''__main__''
       (python_start []\<lparr>argv := ''start.py'' # ''--ui=x'' # []\<rparr>))) = [(GomokuGUI, 10)]
   \<and> constructions (fst (start sample_frontends ''__main__''
       (python_start []\<lparr>argv := ''start.py'' # ''x'' # [''--ui'']\<rparr>)))
       = [(GomokuGUI, 10)]"
  using flag_match_is_exact [where env = sample_frontends and p = "python_start []"
          and prog = "''start.py''" and a = "''--UI''" and rest = "[]"]
        flag_match_is_exact [where env = sample_frontends and p = "python_start []"
          and prog = "''start.py''" and a = "''--ui ''" and rest = "[]"]
        flag_match_is_exact [where env = sample_frontends and p = "python_start []"
          and prog = "''start.py''" and a = "''-ui''" and rest = "[]"]
        flag_match_is_exact [where env = sample_frontends and p = "python_start []"
          and prog = "''start.py''" and a = "''--ui=x''" and rest = "[]"]
        flag_match_is_exact [where env = sample_frontends and p = "python_start []"
          and prog = "''start.py''" and a = "''x''" and rest = "[''--ui'']"]
  by simp

subsection \<open>The main guard\<close>

text \<open>
  C10, as claimed: all the launcher does is behind the \<open>__name__ == "__main__"\<close>
  check, so that an import of the module executes nothing of it and leaves the
  front-ends untouched. This fails: the two import statements of lines 2 and 3 stand
  before the guard. Imported under the name \<open>start\<close>, the module still loads both
  front-end modules, and when they cannot be loaded the import ends in their exception.
\<close>

theorem import_runs_unguarded_imports:
  "fst (start_py modules_load sample_frontends ''start'' (python_start [])) \<noteq> []
   \<and> fst (start_py modules_load sample_frontends ''start'' (python_start []))
       = [Import_from ''src.ui.ui'' ''UI'' (Returned ()),
          Import_from ''src.gui.gui'' ''GomokuGUI'' (Returned ())]
   \<and> start_py modules_missing sample_frontends ''start'' (python_start [])
       = ([Import_from ''src.ui.ui'' ''UI'' (Raised ''ModuleNotFoundError'')],
          Raised (Propagated ''ModuleNotFoundError''))"
  by (simp add: start_py_def import_from_def start_def modules_load_def
      modules_missing_def)

text \<open>
  C10, amended: the construction and the call of \<open>run\<close> are behind the
  \<open>__name__ == "__main__"\<close> check. Executed under any other module name, as an
  import does, the module executes its import statements and nothing else: it loads
  \<open>src.ui.ui\<close>, then \<open>src.gui.gui\<close>, stops at the first that raises or blocks, and
  returns when both have loaded. Whatever the imports do, it makes no call on a
  front-end: no instance is constructed and \<open>run\<close> is not invoked.
\<close>

theorem import_runs_only_the_imports:
  "name \<noteq> ''__main__'' \<Longrightarrow>
   front_end_calls (fst (start_py load env name p)) = []
   \<and> constructions (front_end_calls (fst (start_py load env name p))) = []
   \<and> instances (front_end_calls (fst (start_py load env name p))) = []
   \<and> run_calls (front_end_calls (fst (start_py load env name p))) = []
   \<and> start_py load env name p
       = (case load ''src.ui.ui'' ''UI'' of
            Returned u \<Rightarrow>
              (case load ''src.gui.gui'' ''GomokuGUI'' of
                 Returned v \<Rightarrow>
                   ([Import_from ''src.ui.ui'' ''UI'' (Returned u),
                     Import_from ''src.gui.gui'' ''GomokuGUI'' (Returned v)],
                    Returned ())
               | Raised x \<Rightarrow>
                   ([Import_from ''src.ui.ui'' ''UI'' (Returned u),
                     Import_from ''src.gui.gui'' ''GomokuGUI'' (Raised x)],
                    Raised (Propagated x))
               | Diverged \<Rightarrow>
                   ([Import_from ''src.ui.ui'' ''UI'' (Returned u),
                     Import_from ''src.gui.gui'' ''GomokuGUI'' Diverged],
                    Diverged))
          | Raised x \<Rightarrow>
              ([Import_from ''src.ui.ui'' ''UI'' (Raised x)], Raised (Propagated x))
          | Diverged \<Rightarrow> ([Import_from ''src.ui.ui'' ''UI'' Diverged], Diverged))"
  by (cases "load ''src.ui.ui'' ''UI''"; cases "load ''src.gui.gui'' ''GomokuGUI''")
     (simp_all add: start_py_def import_from_def start_def)

theorem import_runs_only_the_imports_witness:
  "''start'' \<noteq> ''__main__''
   \<and> front_end_calls
         (fst (start_py modules_load sample_frontends ''start'' (python_start [''--ui''])))
       = []
   \<and> imports_run
         (fst (start_py modules_load sample_frontends ''start'' (python_start [''--ui''])))
       = [(''src.ui.ui'', ''UI''), (''src.gui.gui'', ''GomokuGUI'')]
   \<and> snd (start_py modules_load sample_frontends ''start'' (python_start [''--ui'']))
       = Returned ()
   \<and> front_end_calls
         (fst (start_py modules_load sample_frontends ''__main__''
                 (python_start [''--ui''])))
       = [Call_init UI 10 (Returned 1), Call_run 1 (Returned ())]"
  using import_runs_only_the_imports
          [where name = "''start''" and load = modules_load and env = sample_frontends
             and p = "python_start [''--ui'']"]
  by (simp add: start_py_def import_from_def start_def modules_load_def
      main_block_run sample_frontends_def python_start_def)

end
